theory Spec2Isabelle
  imports Complex_Main "HOL-Library.Log_Nat" "HOL-Library.AList"
begin

text \<open>
  A model of \<open>dz_xml.py\<close>, the translator of a small configuration language (named
  constants that are numbers, nested dictionaries or postfix expressions) to XML. The
  parser is generated by a library from the grammar; the model starts at the parse tree
  and follows \<open>BuildAST\<close>, \<open>eval_config\<close> and \<open>build_xml\<close>. Where a theorem names a
  source text, it takes the parse tree of that text.
\<close>

section \<open>Python floats\<close>

text \<open>
  The translator computes with Python \<open>float\<close>s, which are IEEE 754 binary64 numbers.
  A float is a finite value, an infinity with its sign, or a NaN. The finite value
  \<open>Fin s m e\<close> is \<open>m * 2 ^ e\<close>, negated when \<open>s\<close> holds, with \<open>m\<close> odd and below
  \<open>2 ^ 53\<close> and \<open>- 1074 \<le> e \<le> 1023\<close>; the zeros are \<open>Fin False 0 0\<close> and \<open>Fin True 0 0\<close>.
  So \<open>11.0\<close> is \<open>Fin False 11 0\<close>, \<open>2.0\<close> is \<open>Fin False 1 1\<close> and \<open>0.5\<close> is
  \<open>Fin False 1 (- 1)\<close>. Every operation rounds its exact result to such a value, to
  nearest with ties to even.
\<close>

datatype pyfloat = Fin bool int int | Infty bool | NaN

text \<open>\<open>shl n k\<close> is \<open>n * 2 ^ k\<close> for \<open>0 \<le> k\<close>, and \<open>n\<close> for a negative \<open>k\<close>.\<close>

definition shl :: "int \<Rightarrow> int \<Rightarrow> int" where
  "shl n k = n * 2 ^ nat k"

text \<open>The mantissa is kept odd: trailing zero bits move into the exponent.\<close>

function normalize :: "int \<Rightarrow> int \<Rightarrow> int \<times> int" where
  "normalize m e =
     (if m = 0 then (0, 0)
      else if even m then normalize (m div 2) (e + 1)
      else (m, e))"
  by pat_completeness auto
termination
  by (relation "measure (\<lambda>(m, e). nat \<bar>m\<bar>)") auto

text \<open>\<open>ilog2 n d\<close> is the exponent \<open>k\<close> with \<open>2 ^ k \<le> n / d < 2 ^ (k + 1)\<close>, for \<open>0 < n\<close>, \<open>0 < d\<close>.\<close>

definition ilog2 :: "int \<Rightarrow> int \<Rightarrow> int" where
  "ilog2 n d = (let k = bitlen n - bitlen d
                in if shl d k \<le> shl n (- k) then k else k - 1)"

text \<open>The integer nearest to \<open>n / d\<close>, the even one of two that are equally near.\<close>

definition round_half_even :: "int \<Rightarrow> int \<Rightarrow> int" where
  "round_half_even n d =
     (let q = n div d; r = n mod d
      in if 2 * r < d then q
         else if d < 2 * r then q + 1
         else if even q then q else q + 1)"

text \<open>
  \<open>round_double s n d x\<close> rounds the exact magnitude \<open>n / d * 2 ^ x\<close> with sign \<open>s\<close> to
  binary64: 53 significant bits, the least exponent \<open>- 1074\<close> (subnormals, underflow to
  a signed zero), overflow (a rounded magnitude of \<open>2 ^ 1024\<close> or more) to the infinity
  of the same sign.
\<close>

definition round_double :: "bool \<Rightarrow> int \<Rightarrow> int \<Rightarrow> int \<Rightarrow> pyfloat" where
  "round_double s n d x =
     (if n = 0 then Fin s 0 0
      else let e = max (ilog2 n d + x - 52) (- 1074);
               m = round_half_even (shl n (x - e)) (shl d (e - x))
           in if 971 < e \<or> (e = 971 \<and> m = 9007199254740992) then Infty s
              else case normalize m e of (m', e') \<Rightarrow> Fin s m' e')"

definition fval :: "bool \<Rightarrow> int \<Rightarrow> int" where
  "fval s a = (if s then - a else a)"

fun py_neg :: "pyfloat \<Rightarrow> pyfloat" where
  "py_neg (Fin s a ea) = Fin (\<not> s) a ea"
| "py_neg (Infty s) = Infty (\<not> s)"
| "py_neg NaN = NaN"

text \<open>\<open>a + b\<close>. An exact sum of zero is \<open>+0.0\<close>, unless both operands are negative.\<close>

fun py_add :: "pyfloat \<Rightarrow> pyfloat \<Rightarrow> pyfloat" where
  "py_add (Fin s a ea) (Fin t b eb) =
     (let e0 = min ea eb;
          q = fval s (shl a (ea - e0)) + fval t (shl b (eb - e0))
      in if q = 0 then Fin (s \<and> t) 0 0 else round_double (q < 0) \<bar>q\<bar> 1 e0)"
| "py_add (Fin s a ea) (Infty t) = Infty t"
| "py_add (Infty s) (Fin t b eb) = Infty s"
| "py_add (Infty s) (Infty t) = (if s = t then Infty s else NaN)"
| "py_add NaN y = NaN"
| "py_add x NaN = NaN"

text \<open>\<open>a - b\<close>, which IEEE 754 defines as \<open>a + (- b)\<close>.\<close>

definition py_sub :: "pyfloat \<Rightarrow> pyfloat \<Rightarrow> pyfloat" where
  "py_sub x y = py_add x (py_neg y)"

text \<open>\<open>a * b\<close>.\<close>

fun py_mul :: "pyfloat \<Rightarrow> pyfloat \<Rightarrow> pyfloat" where
  "py_mul (Fin s a ea) (Fin t b eb) = round_double (s \<noteq> t) (a * b) 1 (ea + eb)"
| "py_mul (Fin s a ea) (Infty t) = (if a = 0 then NaN else Infty (s \<noteq> t))"
| "py_mul (Infty s) (Fin t b eb) = (if b = 0 then NaN else Infty (s \<noteq> t))"
| "py_mul (Infty s) (Infty t) = Infty (s \<noteq> t)"
| "py_mul NaN y = NaN"
| "py_mul x NaN = NaN"

text \<open>The IEEE 754 quotient, for a divisor that is not a zero.\<close>

fun ieee_div :: "pyfloat \<Rightarrow> pyfloat \<Rightarrow> pyfloat" where
  "ieee_div (Fin s a ea) (Fin t b eb) = round_double (s \<noteq> t) a b (ea - eb)"
| "ieee_div (Fin s a ea) (Infty t) = Fin (s \<noteq> t) 0 0"
| "ieee_div (Infty s) (Fin t b eb) = Infty (s \<noteq> t)"
| "ieee_div (Infty s) (Infty t) = NaN"
| "ieee_div NaN y = NaN"
| "ieee_div x NaN = NaN"

text \<open>\<open>b == 0.0\<close>: true of both zeros, false of a NaN.\<close>

fun py_is_zero :: "pyfloat \<Rightarrow> bool" where
  "py_is_zero (Fin s a ea) = (a = 0)"
| "py_is_zero (Infty s) = False"
| "py_is_zero NaN = False"

text \<open>\<open>a < b\<close>: false whenever an operand is a NaN; the two zeros are equal.\<close>

fun py_lt :: "pyfloat \<Rightarrow> pyfloat \<Rightarrow> bool" where
  "py_lt (Fin s a ea) (Fin t b eb) =
     (let e0 = min ea eb
      in fval s (shl a (ea - e0)) < fval t (shl b (eb - e0)))"
| "py_lt (Fin s a ea) (Infty t) = (\<not> t)"
| "py_lt (Infty s) (Fin t b eb) = s"
| "py_lt (Infty s) (Infty t) = (s \<and> \<not> t)"
| "py_lt NaN y = False"
| "py_lt x NaN = False"

text \<open>
  \<open>min(a, b)\<close> of two positional arguments keeps the first one unless the second is
  strictly less.
\<close>

definition py_min :: "pyfloat \<Rightarrow> pyfloat \<Rightarrow> pyfloat" where
  "py_min a b = (if py_lt b a then b else a)"

section \<open>Errors\<close>

text \<open>
  Every failure of the translator is a Python exception that aborts the run. The
  constructors carry the name that the message of the exception reports:
  \<^item> \<open>DuplicateKeyError key\<close>: \<open>ValueError("Duplicate key in dictionary: {key}")\<close>;
  \<^item> \<open>ArityError tok\<close>: \<open>ValueError("min requires at least two operands")\<close> for
    \<open>tok = min\<close>, \<open>ValueError("Operator {tok} requires two operands")\<close> otherwise;
  \<^item> \<open>UnknownConstantError tok\<close>: \<open>ValueError("Unknown constant in expression: {tok}")\<close>;
  \<^item> \<open>NonNumericReferenceError tok\<close>: \<open>ValueError("Constant {tok} is not numeric")\<close>;
  \<^item> \<open>MalformedExpressionError\<close>:
    \<open>ValueError("Expression did not reduce to a single value")\<close>;
  \<^item> \<open>ZeroDivisionError\<close>: raised by the operator \<open>/\<close> of Python on a zero divisor;
  \<^item> \<open>InvalidLiteral text\<close>: \<open>float\<close> applied to a text that is not a \<open>NUMBER\<close> token,
    which the lexer never produces.

  An exception raised in a method of \<open>BuildAST\<close> reaches \<open>main\<close> wrapped by the
  transformer of the library; \<open>main\<close> reports every exception of \<open>transform\<close> and of
  \<open>eval_config\<close> as a semantic error and exits.
\<close>

datatype error =
    DuplicateKeyError string
  | ArityError string
  | UnknownConstantError string
  | NonNumericReferenceError string
  | MalformedExpressionError
  | ZeroDivisionError
  | InvalidLiteral string

text \<open>\<open>a / b\<close> of Python: a zero divisor raises, whatever the dividend.\<close>

definition py_div :: "pyfloat \<Rightarrow> pyfloat \<Rightarrow> error + pyfloat" where
  "py_div a b = (if py_is_zero b then Inl ZeroDivisionError else Inr (ieee_div a b))"

section \<open>Number tokens\<close>

text \<open>
  The terminal \<open>NUMBER: /[0-9]+(\.[0-9]+)?/\<close> of the grammar. \<open>float(token)\<close> is applied
  to such tokens only; it gives the double nearest to the decimal value. The model of
  \<open>float\<close> is \<open>py_float\<close>; it covers the \<open>NUMBER\<close> tokens and gives \<open>InvalidLiteral\<close> on
  every other text.
\<close>

definition is_digits :: "string \<Rightarrow> bool" where
  "is_digits s = (s \<noteq> [] \<and> list_all (\<lambda>c. c \<in> set ''0123456789'') s)"

definition is_NUMBER :: "string \<Rightarrow> bool" where
  "is_NUMBER s =
     (let ip = takeWhile (\<lambda>c. c \<noteq> CHR ''.'') s; rest = dropWhile (\<lambda>c. c \<noteq> CHR ''.'') s
      in is_digits ip \<and> (rest = [] \<or> is_digits (tl rest)))"

definition digit_val :: "char \<Rightarrow> int" where
  "digit_val c = of_char c - 48"

definition digits_val :: "string \<Rightarrow> int" where
  "digits_val s = foldl (\<lambda>n c. 10 * n + digit_val c) 0 s"

text \<open>The double nearest to the decimal value of a \<open>NUMBER\<close> token.\<close>

definition float_value :: "string \<Rightarrow> pyfloat" where
  "float_value token =
     (let fp = tl (dropWhile (\<lambda>c. c \<noteq> CHR ''.'') token);
          n = digits_val (filter (\<lambda>c. c \<noteq> CHR ''.'') token)
      in round_double False n (10 ^ length fp) 0)"

definition py_float :: "string \<Rightarrow> error + pyfloat" where
  "py_float token =
     (if is_NUMBER token then Inr (float_value token) else Inl (InvalidLiteral token))"

section \<open>Parse trees and the AST\<close>

text \<open>
  The parse tree that the grammar gives for a source text. The rules \<open>statement\<close> and
  \<open>value\<close> have a single child and no content of their own; the anonymous tokens
  (\<open>:\<close>, \<open>;\<close>, \<open>:=\<close>, \<open>begin\<close>, \<open>end\<close>, \<open>$\<close> and the operator signs) are not kept.
  A \<open>const_decl\<close> or \<open>dict_entry\<close> is the pair of its \<open>NAME\<close> token and its value, and
  \<open>start\<close> is the list of the declarations in source order.
\<close>

datatype item_tree =
    T_expr_number string
  | T_expr_name string
  | T_expr_plus
  | T_expr_minus
  | T_expr_mul
  | T_expr_div

datatype value_tree =
    T_number string
  | T_dictionary "(string \<times> value_tree) list"
  | T_expr "item_tree list"

text \<open>
  The AST that \<open>BuildAST\<close> returns. An item of an expression is a float or a
  \<open>str\<close> (an operator sign or a name); a value is a float, the tuple \<open>("dict", d)\<close> or the
  tuple \<open>("expr", items)\<close>. A Python \<open>dict\<close> keeps its keys in insertion order: it is an
  association list, \<open>d[k] = v\<close> replaces the value of a key that is present in place
  and appends a new key at the end.
\<close>

datatype tok = Num pyfloat | Str string

datatype node =
    Number pyfloat
  | Dict "(string \<times> node) list"
  | Expr "tok list"

abbreviation dict_set :: "'k \<Rightarrow> 'v \<Rightarrow> ('k \<times> 'v) list \<Rightarrow> ('k \<times> 'v) list" where
  "dict_set k v d \<equiv> AList.update k v d"

abbreviation dict_has :: "('k \<times> 'v) list \<Rightarrow> 'k \<Rightarrow> bool" where
  "dict_has d k \<equiv> k \<in> fst ` set d"

section \<open>BuildAST\<close>

definition number :: "string \<Rightarrow> error + node" where
  "number token = (case py_float token of Inl err \<Rightarrow> Inl err | Inr x \<Rightarrow> Inr (Number x))"

definition expr_number :: "string \<Rightarrow> error + tok" where
  "expr_number token = (case py_float token of Inl err \<Rightarrow> Inl err | Inr x \<Rightarrow> Inr (Num x))"

definition expr_name :: "string \<Rightarrow> tok" where
  "expr_name token = Str token"

definition expr_plus :: tok where "expr_plus = Str ''+''"
definition expr_minus :: tok where "expr_minus = Str ''-''"
definition expr_mul :: tok where "expr_mul = Str ''*''"
definition expr_div :: tok where "expr_div = Str ''/''"

text \<open>The loop of \<open>dictionary\<close>, from the dict \<open>d\<close> built so far.\<close>

fun dictionary_loop ::
  "(string \<times> node) list \<Rightarrow> (string \<times> node) list \<Rightarrow> error + (string \<times> node) list" where
  "dictionary_loop d [] = Inr d"
| "dictionary_loop d ((key, v) # items) =
     (if dict_has d key then Inl (DuplicateKeyError key)
      else dictionary_loop (dict_set key v d) items)"

definition dictionary :: "(string \<times> node) list \<Rightarrow> error + node" where
  "dictionary items =
     (case dictionary_loop [] items of Inl err \<Rightarrow> Inl err | Inr d \<Rightarrow> Inr (Dict d))"

definition dict_entry :: "string \<Rightarrow> node \<Rightarrow> string \<times> node" where
  "dict_entry name_token v = (name_token, v)"

definition expr :: "tok list \<Rightarrow> node" where
  "expr items = Expr items"

definition const_decl :: "string \<Rightarrow> node \<Rightarrow> string \<times> node" where
  "const_decl name_token v = (name_token, v)"

text \<open>
  \<open>transform\<close> visits the tree bottom-up: the children of a node from left to right,
  then the method of the node on their results. The first exception ends the visit.
\<close>

fun transform_item :: "item_tree \<Rightarrow> error + tok" where
  "transform_item (T_expr_number token) = expr_number token"
| "transform_item (T_expr_name token) = Inr (expr_name token)"
| "transform_item T_expr_plus = Inr expr_plus"
| "transform_item T_expr_minus = Inr expr_minus"
| "transform_item T_expr_mul = Inr expr_mul"
| "transform_item T_expr_div = Inr expr_div"

fun transform_items :: "item_tree list \<Rightarrow> error + tok list" where
  "transform_items [] = Inr []"
| "transform_items (t # ts) =
     (case transform_item t of
        Inl err \<Rightarrow> Inl err
      | Inr x \<Rightarrow> (case transform_items ts of Inl err \<Rightarrow> Inl err | Inr xs \<Rightarrow> Inr (x # xs)))"

fun transform_value :: "value_tree \<Rightarrow> error + node"
  and transform_entries :: "(string \<times> value_tree) list \<Rightarrow> error + (string \<times> node) list" where
  "transform_value (T_number token) = number token"
| "transform_value (T_dictionary entries) =
     (case transform_entries entries of Inl err \<Rightarrow> Inl err | Inr items \<Rightarrow> dictionary items)"
| "transform_value (T_expr ts) =
     (case transform_items ts of Inl err \<Rightarrow> Inl err | Inr items \<Rightarrow> Inr (expr items))"
| "transform_entries [] = Inr []"
| "transform_entries ((name_token, t) # entries) =
     (case transform_value t of
        Inl err \<Rightarrow> Inl err
      | Inr v \<Rightarrow>
          (case transform_entries entries of
             Inl err \<Rightarrow> Inl err
           | Inr items \<Rightarrow> Inr (dict_entry name_token v # items)))"

fun transform :: "(string \<times> value_tree) list \<Rightarrow> error + (string \<times> node) list" where
  "transform [] = Inr []"
| "transform ((name_token, t) # statements) =
     (case transform_value t of
        Inl err \<Rightarrow> Inl err
      | Inr v \<Rightarrow>
          (case transform statements of
             Inl err \<Rightarrow> Inl err
           | Inr ast \<Rightarrow> Inr (const_decl name_token v # ast)))"

section \<open>The evaluator\<close>

text \<open>A resolved value is a float or a dict of resolved values.\<close>

datatype rvalue = RNum pyfloat | RDict "(string \<times> rvalue) list"

type_synonym env = "(string \<times> rvalue) list"

text \<open>
  One iteration of the loop of \<open>eval_expr\<close>. The stack is a Python list: \<open>append\<close> adds
  at the end and \<open>pop\<close> takes from the end.
\<close>

definition eval_tok :: "env \<Rightarrow> tok \<Rightarrow> pyfloat list \<Rightarrow> error + pyfloat list" where
  "eval_tok env t stack =
     (case t of
        Num x \<Rightarrow> Inr (stack @ [x])
      | Str tok \<Rightarrow>
          if tok \<in> {''+'', ''-'', ''*'', ''/'', ''min''} then
            if tok = ''min'' then
              if length stack < 2 then Inl (ArityError tok)
              else let b = last stack; stack1 = butlast stack;
                       a = last stack1; stack2 = butlast stack1
                   in Inr (stack2 @ [py_min a b])
            else
              if length stack < 2 then Inl (ArityError tok)
              else let b = last stack; stack1 = butlast stack;
                       a = last stack1; stack2 = butlast stack1
                   in if tok = ''+'' then Inr (stack2 @ [py_add a b])
                      else if tok = ''-'' then Inr (stack2 @ [py_sub a b])
                      else if tok = ''*'' then Inr (stack2 @ [py_mul a b])
                      else if tok = ''/'' then
                        (case py_div a b of Inl err \<Rightarrow> Inl err | Inr x \<Rightarrow> Inr (stack2 @ [x]))
                      else Inr stack2
          else
            (case map_of env tok of
               None \<Rightarrow> Inl (UnknownConstantError tok)
             | Some (RDict d) \<Rightarrow> Inl (NonNumericReferenceError tok)
             | Some (RNum val) \<Rightarrow> Inr (stack @ [val])))"

fun eval_expr_loop :: "env \<Rightarrow> tok list \<Rightarrow> pyfloat list \<Rightarrow> error + pyfloat list" where
  "eval_expr_loop env [] stack = Inr stack"
| "eval_expr_loop env (t # tokens) stack =
     (case eval_tok env t stack of
        Inl err \<Rightarrow> Inl err
      | Inr stack' \<Rightarrow> eval_expr_loop env tokens stack')"

definition eval_expr :: "env \<Rightarrow> tok list \<Rightarrow> error + pyfloat" where
  "eval_expr env tokens =
     (case eval_expr_loop env tokens [] of
        Inl err \<Rightarrow> Inl err
      | Inr stack \<Rightarrow>
          if length stack \<noteq> 1 then Inl MalformedExpressionError else Inr (stack ! 0))"

text \<open>
  \<open>eval_value\<close>, with the loop over the entries of a dict from the dict \<open>d\<close> built so
  far. The environment is the variable \<open>env\<close> of \<open>eval_config\<close>, which only the loop of
  \<open>eval_config\<close> assigns to.
\<close>

fun eval_value :: "env \<Rightarrow> node \<Rightarrow> error + rvalue"
  and eval_value_loop ::
    "env \<Rightarrow> (string \<times> rvalue) list \<Rightarrow> (string \<times> node) list \<Rightarrow> error + (string \<times> rvalue) list" where
  "eval_value env (Number x) = Inr (RNum x)"
| "eval_value env (Dict items) =
     (case eval_value_loop env [] items of Inl err \<Rightarrow> Inl err | Inr d \<Rightarrow> Inr (RDict d))"
| "eval_value env (Expr tokens) =
     (case eval_expr env tokens of Inl err \<Rightarrow> Inl err | Inr x \<Rightarrow> Inr (RNum x))"
| "eval_value_loop env d [] = Inr d"
| "eval_value_loop env d ((k, v_ast) # items) =
     (case eval_value env v_ast of
        Inl err \<Rightarrow> Inl err
      | Inr v \<Rightarrow> eval_value_loop env (dict_set k v d) items)"

text \<open>The loop of \<open>eval_config\<close> over the declarations, from the state \<open>(env, result)\<close>.\<close>

fun eval_config_loop :: "env \<times> env \<Rightarrow> (string \<times> node) list \<Rightarrow> error + env \<times> env" where
  "eval_config_loop (env, result) [] = Inr (env, result)"
| "eval_config_loop (env, result) ((name, val_ast) # ast) =
     (case eval_value env val_ast of
        Inl err \<Rightarrow> Inl err
      | Inr v \<Rightarrow> eval_config_loop (dict_set name v env, dict_set name v result) ast)"

definition eval_config :: "(string \<times> node) list \<Rightarrow> error + env" where
  "eval_config ast =
     (case eval_config_loop ([], []) ast of
        Inl err \<Rightarrow> Inl err
      | Inr (env, result) \<Rightarrow> Inr result)"

text \<open>
  The translation of a parse tree, as \<open>main\<close> runs it: \<open>BuildAST().transform(tree)\<close> and
  then \<open>eval_config(ast)\<close>.
\<close>

definition translate :: "(string \<times> value_tree) list \<Rightarrow> error + env" where
  "translate tree =
     (case transform tree of Inl err \<Rightarrow> Inl err | Inr ast \<Rightarrow> eval_config ast)"

section \<open>The XML emitter\<close>

text \<open>
  An \<open>Element\<close> has a tag, its attributes, an optional text and its children.
  \<open>SubElement(parent, tag, name=name)\<close> appends a new element to the children of
  \<open>parent\<close>. \<open>float_str\<close> is \<open>str\<close> on floats.
\<close>

datatype element =
  Element (tag: string) (attrib: "(string \<times> string) list") (elem_text: "string option")
    (children: "element list")

definition SubElement :: "element \<Rightarrow> element \<Rightarrow> element" where
  "SubElement parent elem =
     Element (tag parent) (attrib parent) (elem_text parent) (children parent @ [elem])"

fun add_value :: "(pyfloat \<Rightarrow> string) \<Rightarrow> element \<Rightarrow> string \<Rightarrow> rvalue \<Rightarrow> element"
  and add_value_loop ::
    "(pyfloat \<Rightarrow> string) \<Rightarrow> element \<Rightarrow> (string \<times> rvalue) list \<Rightarrow> element" where
  "add_value float_str parent name (RDict d) =
     SubElement parent
       (add_value_loop float_str (Element ''dict'' [(''name'', name)] None []) d)"
| "add_value float_str parent name (RNum x) =
     SubElement parent (Element ''number'' [(''name'', name)] (Some (float_str x)) [])"
| "add_value_loop float_str elem [] = elem"
| "add_value_loop float_str elem ((k, v) # items) =
     add_value_loop float_str (add_value float_str elem k v) items"

definition build_xml :: "(pyfloat \<Rightarrow> string) \<Rightarrow> env \<Rightarrow> element" where
  "build_xml float_str data = add_value_loop float_str (Element ''config'' [] None []) data"

section \<open>Notions of the specification\<close>

text \<open>
  A parse tree is well formed when each of its \<open>NUMBER\<close> tokens matches the terminal of
  the grammar, as the lexer guarantees.
\<close>

fun item_ok :: "item_tree \<Rightarrow> bool" where
  "item_ok (T_expr_number token) = is_NUMBER token"
| "item_ok t = True"

fun value_ok :: "value_tree \<Rightarrow> bool"
  and entries_ok :: "(string \<times> value_tree) list \<Rightarrow> bool" where
  "value_ok (T_number token) = is_NUMBER token"
| "value_ok (T_dictionary entries) = entries_ok entries"
| "value_ok (T_expr ts) = list_all item_ok ts"
| "entries_ok [] = True"
| "entries_ok ((name, t) # entries) = (value_ok t \<and> entries_ok entries)"

text \<open>
  A key reappears within a single dictionary literal: some dictionary of the tree, at any
  depth, has two entries of the same name. The names of the list itself (the top-level
  constants, or the entries of the enclosing dictionary) are not compared.
\<close>

fun repeats_key :: "value_tree \<Rightarrow> bool"
  and repeats_key_entries :: "(string \<times> value_tree) list \<Rightarrow> bool" where
  "repeats_key (T_number token) = False"
| "repeats_key (T_dictionary entries) =
     (\<not> distinct (map fst entries) \<or> repeats_key_entries entries)"
| "repeats_key (T_expr ts) = False"
| "repeats_key_entries [] = False"
| "repeats_key_entries ((name, t) # entries) = (repeats_key t \<or> repeats_key_entries entries)"

text \<open>
  The XML tree as the specification describes it: a \<open>number\<close> element with the attribute
  \<open>name\<close> and the text of the float for a number, a \<open>dict\<close> element with the attribute
  \<open>name\<close> and the emitted children, in the order of the mapping, for a dict.
\<close>

fun emit :: "(pyfloat \<Rightarrow> string) \<Rightarrow> string \<Rightarrow> rvalue \<Rightarrow> element"
  and emit_all :: "(pyfloat \<Rightarrow> string) \<Rightarrow> (string \<times> rvalue) list \<Rightarrow> element list" where
  "emit float_str name (RNum x) =
     Element ''number'' [(''name'', name)] (Some (float_str x)) []"
| "emit float_str name (RDict d) =
     Element ''dict'' [(''name'', name)] None (emit_all float_str d)"
| "emit_all float_str [] = []"
| "emit_all float_str ((k, v) # items) = emit float_str k v # emit_all float_str items"

section \<open>Floats by example\<close>

text \<open>
  Some values of the float operations: \<open>0.1\<close> is not a binary fraction and is rounded;
  \<open>0.1 + 0.2\<close> is \<open>0.30000000000000004\<close>; \<open>2 ^ 53 + 1\<close> is a tie and rounds to the even
  \<open>2 ^ 53\<close>; the largest double times two overflows to infinity; half of the least
  subnormal underflows to zero; \<open>0.0 * -1.0\<close> is \<open>-0.0\<close>; infinity minus infinity is a
  NaN; \<open>min\<close> keeps its first argument unless the second is less, so that a NaN or a
  zero in first place stays.
\<close>

lemma float_examples:
  "py_float ''0.1'' = Inr (Fin False 3602879701896397 (- 55))"
  "py_float ''0.2'' = Inr (Fin False 3602879701896397 (- 54))"
  "py_add (Fin False 3602879701896397 (- 55)) (Fin False 3602879701896397 (- 54))
     = Fin False 1351079888211149 (- 52)"
  "py_float ''0.30000000000000004'' = Inr (Fin False 1351079888211149 (- 52))"
  "py_float ''9007199254740993'' = Inr (Fin False 1 53)"
  "py_mul (Fin False 9007199254740991 971) (Fin False 1 1) = Infty False"
  "ieee_div (Fin False 1 (- 1074)) (Fin False 1 1) = Fin False 0 0"
  "py_mul (Fin False 0 0) (Fin True 1 0) = Fin True 0 0"
  "py_sub (Infty False) (Infty False) = NaN"
  "py_div (Fin False 1 0) (Fin False 3 0) = Inr (Fin False 6004799503160661 (- 54))"
  "py_div (Fin False 1 0) (Fin True 0 0) = Inl ZeroDivisionError"
  "py_div NaN (Fin False 0 0) = Inl ZeroDivisionError"
  "py_min NaN (Fin False 1 0) = NaN"
  "py_min (Fin False 1 0) NaN = Fin False 1 0"
  "py_min (Fin False 0 0) (Fin True 0 0) = Fin False 0 0"
  by code_simp+

section \<open>Lemmas on the expression loop\<close>

lemma eval_expr_loop_append:
  "eval_expr_loop env (ts @ us) stack =
     (case eval_expr_loop env ts stack of
        Inl err \<Rightarrow> Inl err
      | Inr stack' \<Rightarrow> eval_expr_loop env us stack')"
  by (induction ts arbitrary: stack) (auto split: sum.splits)

lemma eval_expr_loop_snoc:
  "eval_expr_loop env pre [] = Inr stack \<Longrightarrow>
   eval_expr_loop env (pre @ [t]) [] = eval_tok env t stack"
  by (simp add: eval_expr_loop_append split: sum.splits)

lemma eval_expr_abort:
  "eval_expr_loop env pre [] = Inr stack \<Longrightarrow> eval_tok env t stack = Inl err \<Longrightarrow>
   eval_expr env (pre @ t # rest) = Inl err"
  by (simp add: eval_expr_def eval_expr_loop_append)

lemma eval_tok_Num: "eval_tok env (Num x) stack = Inr (stack @ [x])"
  by (simp add: eval_tok_def)

lemma eval_tok_arity:
  "tok \<in> {''+'', ''-'', ''*'', ''/'', ''min''} \<Longrightarrow> length stack < 2 \<Longrightarrow>
   eval_tok env (Str tok) stack = Inl (ArityError tok)"
  by (simp add: eval_tok_def)

lemma eval_tok_min:
  "eval_tok env (Str ''min'') (st @ [a, b]) = Inr (st @ [py_min a b])"
  by (simp add: eval_tok_def butlast_append)

lemma eval_tok_plus:
  "eval_tok env (Str ''+'') (st @ [a, b]) = Inr (st @ [py_add a b])"
  by (simp add: eval_tok_def butlast_append)

lemma eval_tok_minus:
  "eval_tok env (Str ''-'') (st @ [a, b]) = Inr (st @ [py_sub a b])"
  by (simp add: eval_tok_def butlast_append)

lemma eval_tok_mul:
  "eval_tok env (Str ''*'') (st @ [a, b]) = Inr (st @ [py_mul a b])"
  by (simp add: eval_tok_def butlast_append)

lemma eval_tok_div:
  "eval_tok env (Str ''/'') (st @ [a, b]) =
     (if py_is_zero b then Inl ZeroDivisionError else Inr (st @ [ieee_div a b]))"
  by (simp add: eval_tok_def butlast_append py_div_def)

lemma eval_tok_name:
  "name \<notin> {''+'', ''-'', ''*'', ''/'', ''min''} \<Longrightarrow>
   eval_tok env (Str name) stack =
     (case map_of env name of
        None \<Rightarrow> Inl (UnknownConstantError name)
      | Some (RDict d) \<Rightarrow> Inl (NonNumericReferenceError name)
      | Some (RNum val) \<Rightarrow> Inr (stack @ [val]))"
  by (simp add: eval_tok_def)

lemma eval_expr_final:
  "eval_expr_loop env tokens [] = Inr stack \<Longrightarrow>
   eval_expr env tokens = (case stack of [x] \<Rightarrow> Inr x | _ \<Rightarrow> Inl MalformedExpressionError)"
  by (auto simp: eval_expr_def split: list.splits)

lemma eval_tok_env_cong:
  assumes "\<forall>k. k \<noteq> ''min'' \<longrightarrow> map_of env k = map_of env' k"
  shows "eval_tok env t stack = eval_tok env' t stack"
proof (cases t)
  case (Num x)
  then show ?thesis by (simp add: eval_tok_def)
next
  case (Str tok)
  show ?thesis
  proof (cases "tok \<in> {''+'', ''-'', ''*'', ''/'', ''min''}")
    case True
    with Str show ?thesis by (simp add: eval_tok_def)
  next
    case False
    then have "map_of env tok = map_of env' tok" using assms by auto
    with Str False show ?thesis by (simp add: eval_tok_def)
  qed
qed

lemma eval_expr_loop_env_cong:
  assumes "\<forall>k. k \<noteq> ''min'' \<longrightarrow> map_of env k = map_of env' k"
  shows "eval_expr_loop env tokens stack = eval_expr_loop env' tokens stack"
proof (induction tokens arbitrary: stack)
  case Nil
  show ?case by simp
next
  case (Cons t tokens)
  have "eval_tok env t stack = eval_tok env' t stack"
    using assms by (rule eval_tok_env_cong)
  with Cons show ?case by (simp split: sum.splits)
qed

section \<open>Lemmas on dicts and on BuildAST\<close>

lemma dict_set_new: "\<not> dict_has d k \<Longrightarrow> dict_set k v d = d @ [(k, v)]"
  by (induction d) auto

lemma dict_set_length: "dict_has d k \<Longrightarrow> length (dict_set k v d) = length d"
  by (induction d) auto

lemma py_float_NUMBER: "is_NUMBER token \<Longrightarrow> py_float token = Inr (float_value token)"
  by (simp add: py_float_def)

lemma dictionary_loop_distinct:
  "distinct (map fst items) \<Longrightarrow> fst ` set d \<inter> fst ` set items = {} \<Longrightarrow>
   dictionary_loop d items = Inr (d @ items)"
proof (induction items arbitrary: d)
  case Nil
  show ?case by simp
next
  case (Cons p items)
  obtain key v where p: "p = (key, v)" by (cases p)
  from Cons.prems p have new: "\<not> dict_has d key" by auto
  have "fst ` set (d @ [(key, v)]) \<inter> fst ` set items = {}"
    using Cons.prems p by auto
  moreover have "distinct (map fst items)" using Cons.prems by simp
  ultimately have "dictionary_loop (d @ [(key, v)]) items = Inr ((d @ [(key, v)]) @ items)"
    by (rule Cons.IH [rotated])
  with new p show ?case by (simp add: dict_set_new)
qed

lemma dictionary_loop_repeat:
  "\<not> (distinct (map fst items) \<and> fst ` set d \<inter> fst ` set items = {}) \<Longrightarrow>
   \<exists>key. dictionary_loop d items = Inl (DuplicateKeyError key)"
proof (induction items arbitrary: d)
  case Nil
  then show ?case by simp
next
  case (Cons p items)
  obtain key v where p: "p = (key, v)" by (cases p)
  show ?case
  proof (cases "dict_has d key")
    case True
    with p show ?thesis by simp
  next
    case False
    have "\<not> (distinct (map fst items) \<and> fst ` set (d @ [(key, v)]) \<inter> fst ` set items = {})"
      using Cons.prems p False by auto
    then have "\<exists>k. dictionary_loop (d @ [(key, v)]) items = Inl (DuplicateKeyError k)"
      by (rule Cons.IH)
    with False p show ?thesis by (simp add: dict_set_new)
  qed
qed

lemma dictionary_distinct:
  "distinct (map fst items) \<Longrightarrow> dictionary items = Inr (Dict items)"
  using dictionary_loop_distinct [of items "[]"] by (simp add: dictionary_def)

lemma dictionary_repeat:
  "\<not> distinct (map fst items) \<Longrightarrow> \<exists>key. dictionary items = Inl (DuplicateKeyError key)"
proof -
  assume "\<not> distinct (map fst items)"
  then obtain key where "dictionary_loop [] items = Inl (DuplicateKeyError key)"
    using dictionary_loop_repeat [of items "[]"] by auto
  then show ?thesis by (simp add: dictionary_def)
qed

lemma transform_items_ok:
  "list_all item_ok ts \<Longrightarrow> \<exists>items. transform_items ts = Inr items"
proof (induction ts)
  case Nil
  show ?case by simp
next
  case (Cons t ts)
  then obtain items where "transform_items ts = Inr items" by auto
  moreover from Cons.prems have "\<exists>x. transform_item t = Inr x"
    by (cases t) (auto simp: expr_number_def py_float_def Let_def)
  ultimately show ?case by auto
qed

lemma transform_value_entries:
  "value_ok t \<Longrightarrow>
     (repeats_key t \<longrightarrow> (\<exists>key. transform_value t = Inl (DuplicateKeyError key))) \<and>
     (\<not> repeats_key t \<longrightarrow> (\<exists>v. transform_value t = Inr v))"
  "entries_ok entries \<Longrightarrow>
     (repeats_key_entries entries \<longrightarrow>
        (\<exists>key. transform_entries entries = Inl (DuplicateKeyError key))) \<and>
     (\<not> repeats_key_entries entries \<longrightarrow>
        (\<exists>items. transform_entries entries = Inr items \<and> map fst items = map fst entries))"
proof (induction t and entries rule: transform_value_transform_entries.induct)
  case (1 token)
  then show ?case by (simp add: number_def py_float_def Let_def)
next
  case (2 entries)
  then have ok: "entries_ok entries" by simp
  note IH = 2(1) [OF ok]
  show ?case
  proof (cases "repeats_key_entries entries")
    case True
    with IH show ?thesis by auto
  next
    case False
    with IH obtain items where items: "transform_entries entries = Inr items"
      "map fst items = map fst entries" by auto
    show ?thesis
    proof (cases "distinct (map fst entries)")
      case True
      with items False show ?thesis by (simp add: dictionary_distinct)
    next
      case d: False
      then have "\<exists>key. dictionary items = Inl (DuplicateKeyError key)"
        using items(2) by (intro dictionary_repeat) simp
      with items d show ?thesis by auto
    qed
  qed
next
  case (3 ts)
  then have "list_all item_ok ts" by simp
  then obtain items where "transform_items ts = Inr items"
    using transform_items_ok by blast
  then show ?case by simp
next
  case 4
  show ?case by simp
next
  case (5 name_token t entries)
  then have okt: "value_ok t" and oke: "entries_ok entries" by simp_all
  note IHt = 5(1) [OF okt]
  show ?case
  proof (cases "repeats_key t")
    case True
    with IHt show ?thesis by auto
  next
    case False
    with IHt obtain v where v: "transform_value t = Inr v" by auto
    note IHe = 5(2) [OF v oke]
    show ?thesis
    proof (cases "repeats_key_entries entries")
      case True
      with IHe v False show ?thesis by auto
    next
      case Fe: False
      with IHe v False show ?thesis by (auto simp: dict_entry_def)
    qed
  qed
qed

lemma transform_eq_entries: "transform tree = transform_entries tree"
  by (induction tree) (auto simp: const_decl_def dict_entry_def split: sum.splits)

lemma transform_numbers:
  "list_all (\<lambda>(name, token). is_NUMBER token) decls \<Longrightarrow>
   transform (map (\<lambda>(name, token). (name, T_number token)) decls)
     = Inr (map (\<lambda>(name, token). (name, Number (float_value token))) decls)"
  by (induction decls) (auto simp: number_def py_float_NUMBER const_decl_def)

section \<open>Lemmas on the evaluation of declarations\<close>

lemma eval_config_loop_append:
  "eval_config_loop st (xs @ ys) =
     (case eval_config_loop st xs of
        Inl err \<Rightarrow> Inl err
      | Inr st' \<Rightarrow> eval_config_loop st' ys)"
proof (induction xs arbitrary: st)
  case Nil
  show ?case by (cases st) simp
next
  case (Cons p xs)
  obtain name v where p: "p = (name, v)" by (cases p)
  obtain env result where st: "st = (env, result)" by (cases st)
  show ?case using Cons.IH by (simp add: p st split: sum.splits)
qed

lemma eval_config_loop_same:
  "eval_config_loop (e, e) ast = Inr (env, result) \<Longrightarrow> env = result"
proof (induction ast arbitrary: e)
  case Nil
  then show ?case by auto
next
  case (Cons p ast)
  obtain name v where p: "p = (name, v)" by (cases p)
  from Cons.prems p obtain x where "eval_value e v = Inr x"
    and "eval_config_loop (dict_set name x e, dict_set name x e) ast = Inr (env, result)"
    by (auto split: sum.splits)
  then show ?case using Cons.IH by blast
qed

lemma eval_config_Inr:
  "eval_config ast = Inr env \<longleftrightarrow> eval_config_loop ([], []) ast = Inr (env, env)"
  using eval_config_loop_same [of "[]" ast]
  by (auto simp: eval_config_def split: sum.splits)

lemma eval_config_Inl:
  "eval_config ast = Inl err \<longleftrightarrow> eval_config_loop ([], []) ast = Inl err"
  by (auto simp: eval_config_def split: sum.splits)

lemma eval_config_snoc:
  "eval_config (ast @ [(name, v)]) =
     (case eval_config ast of
        Inl err \<Rightarrow> Inl err
      | Inr env \<Rightarrow>
          (case eval_value env v of
             Inl err \<Rightarrow> Inl err
           | Inr x \<Rightarrow> Inr (dict_set name x env)))"
proof (cases "eval_config ast")
  case (Inl err)
  then have "eval_config_loop ([], []) ast = Inl err" by (simp add: eval_config_Inl)
  then have "eval_config (ast @ [(name, v)]) = Inl err"
    by (simp add: eval_config_def eval_config_loop_append)
  with Inl show ?thesis by simp
next
  case (Inr env)
  then have "eval_config_loop ([], []) ast = Inr (env, env)" by (simp add: eval_config_Inr)
  then have "eval_config (ast @ [(name, v)]) =
      (case eval_value env v of Inl err \<Rightarrow> Inl err | Inr x \<Rightarrow> Inr (dict_set name x env))"
    by (simp add: eval_config_def eval_config_loop_append split: sum.splits)
  with Inr show ?thesis by simp
qed


lemma eval_config_keys:
  "eval_config ast = Inr env \<Longrightarrow> fst ` set env = fst ` set ast \<and> distinct (map fst env)"
proof (induction ast arbitrary: env rule: rev_induct)
  case Nil
  then show ?case by (simp add: eval_config_def)
next
  case (snoc p ast)
  obtain name v where p: "p = (name, v)" by (cases p)
  from snoc.prems p obtain env0 x where e0: "eval_config ast = Inr env0"
    and env: "env = dict_set name x env0"
    by (auto simp: eval_config_snoc split: sum.splits)
  from snoc.IH [OF e0] have "fst ` set env0 = fst ` set ast" "distinct (map fst env0)"
    by simp_all
  then show ?case by (auto simp: env p dom_update distinct_update)
qed

lemma eval_config_numbers:
  "\<exists>r. eval_config (map (\<lambda>(name, token). (name, Number (f token))) decls) = Inr r \<and>
       (\<forall>name. map_of r name = map_option (\<lambda>token. RNum (f token)) (map_of (rev decls) name))"
proof (induction decls rule: rev_induct)
  case Nil
  show ?case by (simp add: eval_config_def)
next
  case (snoc p decls)
  obtain name token where p: "p = (name, token)" by (cases p)
  from snoc obtain r where r: "eval_config (map (\<lambda>(name, token). (name, Number (f token))) decls) = Inr r"
    and m: "\<forall>name. map_of r name = map_option (\<lambda>token. RNum (f token)) (map_of (rev decls) name)"
    by blast
  have "eval_config (map (\<lambda>(name, token). (name, Number (f token))) (decls @ [p]))
      = Inr (dict_set name (RNum (f token)) r)"
    using r by (simp add: p eval_config_snoc)
  moreover have "\<forall>n. map_of (dict_set name (RNum (f token)) r) n
      = map_option (\<lambda>token. RNum (f token)) (map_of (rev (decls @ [p])) n)"
    using m by (simp add: p update_conv')
  ultimately show ?case by blast
qed




section \<open>Lemmas on the XML emitter\<close>

lemma add_value_emit:
  "add_value float_str parent name v = SubElement parent (emit float_str name v)"
  "add_value_loop float_str elem items =
     Element (tag elem) (attrib elem) (elem_text elem) (children elem @ emit_all float_str items)"
proof (induction float_str parent name v and float_str elem items
    rule: add_value_add_value_loop.induct)
  case (1 float_str parent name d)
  then show ?case by simp
next
  case (2 float_str parent name x)
  show ?case by simp
next
  case (3 float_str elem)
  show ?case by (cases elem) simp
next
  case (4 float_str elem k v items)
  then show ?case by (simp add: SubElement_def)
qed

lemma emit_all_map: "emit_all float_str items = map (\<lambda>(k, v). emit float_str k v) items"
  by (induction items) auto

section \<open>Division by zero\<close>

text \<open>
  C1, as the specification states it: when a division operator is applied to a divisor
  equal to zero, the evaluator does not fail and pushes an infinity or a NaN. The source
  \<open>x: $ 1 0 / $;\<close> refutes it: the divisor is the float \<open>0.0\<close> and the translation
  ends with \<open>ZeroDivisionError\<close>.
\<close>

theorem C1_counterexample:
  "py_float ''0'' = Inr (Fin False 0 0) \<and>
   translate [(''x'', T_expr [T_expr_number ''1'', T_expr_number ''0'', T_expr_div])]
     = Inl ZeroDivisionError"
  by code_simp

text \<open>
  C1, amended: for every expression evaluation in which a division operator is applied
  to a divisor equal to zero (\<open>0.0\<close> or \<open>-0.0\<close>), the evaluator fails with
  \<open>ZeroDivisionError\<close>: nothing is pushed, the rest of the expression is not evaluated,
  and the value of the expression is that error.
\<close>

theorem C1_division_by_zero_raises:
  assumes "eval_expr_loop env pre [] = Inr (st @ [a, b])" and "py_is_zero b"
  shows "eval_expr env (pre @ Str ''/'' # rest) = Inl ZeroDivisionError \<and>
         eval_value env (Expr (pre @ Str ''/'' # rest)) = Inl ZeroDivisionError"
proof -
  have "eval_tok env (Str ''/'') (st @ [a, b]) = Inl ZeroDivisionError"
    using assms(2) by (simp add: eval_tok_div)
  with assms(1) have "eval_expr env (pre @ Str ''/'' # rest) = Inl ZeroDivisionError"
    by (rule eval_expr_abort)
  then show ?thesis by simp
qed

text \<open>
  The theorem at the tokens \<open>1 -0.0 / 2 +\<close>, in the empty environment.
\<close>

theorem C1_division_by_zero_raises_witness:
  "eval_expr_loop [] [Num (Fin False 1 0), Num (Fin True 0 0)] []
     = Inr ([] @ [Fin False 1 0, Fin True 0 0]) \<and>
   py_is_zero (Fin True 0 0) \<and>
   eval_expr [] ([Num (Fin False 1 0), Num (Fin True 0 0)] @ Str ''/'' # [Num (Fin False 1 1), Str ''+''])
     = Inl ZeroDivisionError"
proof -
  have h1: "eval_expr_loop [] [Num (Fin False 1 0), Num (Fin True 0 0)] []
     = Inr ([] @ [Fin False 1 0, Fin True 0 0])"
    by (simp add: eval_tok_def)
  have h2: "py_is_zero (Fin True 0 0)" by simp
  from C1_division_by_zero_raises [OF h1 h2, of "[Num (Fin False 1 1), Str ''+'']"] h1 h2
  show ?thesis by blast
qed

section \<open>Numeric declarations\<close>

text \<open>
  C2, as the specification states it: a source whose declarations are all numeric
  literals gives as many entries as it has declarations, each name bound to the float of
  its literal. The source \<open>a: 1; a: 2;\<close> refutes it: it has two declarations, the result
  has the single entry \<open>a = 2.0\<close>, and the literal of the first declaration is \<open>1.0\<close>.
\<close>

theorem C2_counterexample:
  "translate [(''a'', T_number ''1''), (''a'', T_number ''2'')]
     = Inr [(''a'', RNum (Fin False 1 1))] \<and>
   length [(''a'', RNum (Fin False 1 1))] = (1 :: nat) \<and>
   length [(''a'', T_number ''1''), (''a'', T_number ''2'')] = (2 :: nat) \<and>
   py_float ''1'' = Inr (Fin False 1 0)"
  by code_simp

text \<open>
  C2, amended: for every well-formed source whose declarations are all numeric literals
  (\<open>decls\<close> lists the name and the \<open>NUMBER\<close> token of each declaration, in source order),
  the translation succeeds and the result has exactly as many entries as there are
  distinct declared names, which is the number of declarations when no name is declared
  twice; the value bound to each name is the float of the literal of its last
  declaration.
\<close>

theorem C2_numeric_declarations:
  assumes "list_all (\<lambda>(name, token). is_NUMBER token) decls"
  shows "\<exists>r. translate (map (\<lambda>(name, token). (name, T_number token)) decls) = Inr r \<and>
           length r = card (fst ` set decls) \<and>
           (distinct (map fst decls) \<longrightarrow> length r = length decls) \<and>
           (\<forall>name token. map_of (rev decls) name = Some token \<longrightarrow>
              py_float token = Inr (float_value token) \<and>
              map_of r name = Some (RNum (float_value token)))"
proof -
  let ?ast = "map (\<lambda>(name, token). (name, Number (float_value token))) decls"
  from eval_config_numbers [of float_value decls] obtain r
    where r: "eval_config ?ast = Inr r"
      and m: "\<forall>name. map_of r name
        = map_option (\<lambda>token. RNum (float_value token)) (map_of (rev decls) name)"
    by blast
  have t: "translate (map (\<lambda>(name, token). (name, T_number token)) decls) = Inr r"
    using assms r by (simp add: translate_def transform_numbers)
  from eval_config_keys [OF r] have keys: "fst ` set r = fst ` set decls"
    and d: "distinct (map fst r)"
    by (simp_all add: image_image case_prod_beta)
  have len: "length r = card (fst ` set decls)"
    using distinct_card [OF d] keys by simp
  have "distinct (map fst decls) \<longrightarrow> length r = length decls"
    using len distinct_card [of "map fst decls"] by auto
  moreover have "\<forall>name token. map_of (rev decls) name = Some token \<longrightarrow>
      py_float token = Inr (float_value token) \<and>
      map_of r name = Some (RNum (float_value token))"
  proof (intro allI impI)
    fix name token assume s: "map_of (rev decls) name = Some token"
    then have "(name, token) \<in> set decls" by (auto dest: map_of_SomeD)
    with assms have "is_NUMBER token" by (auto simp: list_all_iff)
    then have "py_float token = Inr (float_value token)" by (rule py_float_NUMBER)
    moreover from m s have "map_of r name = Some (RNum (float_value token))" by simp
    ultimately show "py_float token = Inr (float_value token) \<and>
      map_of r name = Some (RNum (float_value token))" ..
  qed
  ultimately show ?thesis using t len by blast
qed

text \<open>
  The theorem at the source \<open>a: 1; b: 2.5;\<close>.
\<close>

theorem C2_numeric_declarations_witness:
  "list_all (\<lambda>(name, token). is_NUMBER token) [(''a'', ''1''), (''b'', ''2.5'')] \<and>
   (\<exists>r. translate (map (\<lambda>(name, token). (name, T_number token)) [(''a'', ''1''), (''b'', ''2.5'')])
          = Inr r \<and>
        length r = card (fst ` set [(''a'', ''1''), (''b'', ''2.5'')]) \<and>
        (distinct (map fst [(''a'', ''1''), (''b'', ''2.5'')]) \<longrightarrow>
           length r = length [(''a'', ''1''), (''b'', ''2.5'')]) \<and>
        (\<forall>name token. map_of (rev [(''a'', ''1''), (''b'', ''2.5'')]) name = Some token \<longrightarrow>
           py_float token = Inr (float_value token) \<and>
           map_of r name = Some (RNum (float_value token))))"
proof -
  have h: "list_all (\<lambda>(name, token). is_NUMBER token) [(''a'', ''1''), (''b'', ''2.5'')]"
    by code_simp
  from C2_numeric_declarations [OF h] h show ?thesis by blast
qed

section \<open>The stack machine\<close>

text \<open>
  C3, as the specification states it: each operator pops \<open>b\<close>, then \<open>a\<close>, and pushes
  \<open>a op b\<close>, and fails only on a stack of fewer than two operands. The source
  \<open>x: $ 6 0 / $;\<close> refutes it: the tokens \<open>6 0\<close> leave the two operands \<open>6.0\<close> and \<open>0.0\<close>
  on the stack, and the operator \<open>/\<close> pushes nothing: the evaluation ends with
  \<open>ZeroDivisionError\<close>.
\<close>

theorem C3_counterexample:
  "eval_expr_loop [] [Num (Fin False 3 1), Num (Fin False 0 0)] []
     = Inr [Fin False 3 1, Fin False 0 0] \<and>
   eval_expr_loop [] [Num (Fin False 3 1), Num (Fin False 0 0), Str ''/''] []
     = Inl ZeroDivisionError \<and>
   translate [(''x'', T_expr [T_expr_number ''6'', T_expr_number ''0'', T_expr_div])]
     = Inl ZeroDivisionError"
  by code_simp

text \<open>
  C3, amended: expression evaluation is a strict left-to-right stack machine. After any
  prefix \<open>pre\<close> of the tokens that has left the stack \<open>stack\<close>: the rest of the tokens is
  evaluated from that stack; a number is pushed; an operator on a stack of fewer than
  two operands ends the evaluation with \<open>ArityError\<close>; on a stack \<open>st @ [a, b]\<close> the
  operator pops \<open>b\<close>, then \<open>a\<close>, and pushes \<open>a + b\<close>, \<open>a - b\<close>, \<open>a * b\<close> or \<open>a / b\<close>, except
  that \<open>/\<close> with a divisor \<open>b\<close> equal to zero pushes nothing and ends the evaluation with
  \<open>ZeroDivisionError\<close>; after all tokens exactly one value must remain, otherwise the
  evaluation fails with \<open>MalformedExpressionError\<close>. The source \<open>x: $ 10 2 3 - - $;\<close>
  gives \<open>x = 11.0\<close>. The last equation gives the values that the operators compute in
  the source
  \<open>s: $ 2 3 + $; d: $ 2 3 - $; p: $ 2 3 * $; q: $ 6 3 / $; r: $ 1 4 / $;
  t: $ 0.1 0.2 + $; u: $ 1 3 / $; v: $ 0.1 3 * $;\<close>:
  \<open>5.0\<close>, \<open>-1.0\<close>, \<open>6.0\<close>, \<open>2.0\<close>, \<open>0.25\<close>, \<open>0.30000000000000004\<close>, \<open>0.3333333333333333\<close>
  and \<open>0.30000000000000004\<close>.
\<close>

theorem C3_stack_machine:
  assumes "eval_expr_loop env pre [] = Inr stack"
  shows
    "eval_expr_loop env (pre @ ts) [] = eval_expr_loop env ts stack \<and>
     eval_expr_loop env (pre @ [Num x]) [] = Inr (stack @ [x]) \<and>
     (\<forall>op \<in> {''+'', ''-'', ''*'', ''/''}. length stack < 2 \<longrightarrow>
        eval_expr env (pre @ Str op # rest) = Inl (ArityError op)) \<and>
     (\<forall>st a b. stack = st @ [a, b] \<longrightarrow>
        eval_expr_loop env (pre @ [Str ''+'']) [] = Inr (st @ [py_add a b]) \<and>
        eval_expr_loop env (pre @ [Str ''-'']) [] = Inr (st @ [py_sub a b]) \<and>
        eval_expr_loop env (pre @ [Str ''*'']) [] = Inr (st @ [py_mul a b]) \<and>
        eval_expr_loop env (pre @ [Str ''/'']) [] =
          (if py_is_zero b then Inl ZeroDivisionError else Inr (st @ [ieee_div a b]))) \<and>
     eval_expr env pre = (case stack of [v] \<Rightarrow> Inr v | _ \<Rightarrow> Inl MalformedExpressionError) \<and>
     translate [(''x'', T_expr [T_expr_number ''10'', T_expr_number ''2'', T_expr_number ''3'',
                               T_expr_minus, T_expr_minus])]
       = Inr [(''x'', RNum (Fin False 11 0))] \<and>
     translate
       [(''s'', T_expr [T_expr_number ''2'', T_expr_number ''3'', T_expr_plus]),
        (''d'', T_expr [T_expr_number ''2'', T_expr_number ''3'', T_expr_minus]),
        (''p'', T_expr [T_expr_number ''2'', T_expr_number ''3'', T_expr_mul]),
        (''q'', T_expr [T_expr_number ''6'', T_expr_number ''3'', T_expr_div]),
        (''r'', T_expr [T_expr_number ''1'', T_expr_number ''4'', T_expr_div]),
        (''t'', T_expr [T_expr_number ''0.1'', T_expr_number ''0.2'', T_expr_plus]),
        (''u'', T_expr [T_expr_number ''1'', T_expr_number ''3'', T_expr_div]),
        (''v'', T_expr [T_expr_number ''0.1'', T_expr_number ''3'', T_expr_mul])]
       = Inr [(''s'', RNum (Fin False 5 0)), (''d'', RNum (Fin True 1 0)),
              (''p'', RNum (Fin False 3 1)), (''q'', RNum (Fin False 1 1)),
              (''r'', RNum (Fin False 1 (- 2))),
              (''t'', RNum (Fin False 1351079888211149 (- 52))),
              (''u'', RNum (Fin False 6004799503160661 (- 54))),
              (''v'', RNum (Fin False 1351079888211149 (- 52)))]"
proof -
  have "eval_expr_loop env (pre @ ts) [] = eval_expr_loop env ts stack"
    using assms by (simp add: eval_expr_loop_append)
  moreover have "eval_expr_loop env (pre @ [Num x]) [] = Inr (stack @ [x])"
    using assms by (simp add: eval_expr_loop_snoc eval_tok_Num)
  moreover have "\<forall>op \<in> {''+'', ''-'', ''*'', ''/''}. length stack < 2 \<longrightarrow>
        eval_expr env (pre @ Str op # rest) = Inl (ArityError op)"
  proof (intro ballI impI)
    fix op :: string
    assume "op \<in> {''+'', ''-'', ''*'', ''/''}" and "length stack < 2"
    then have "eval_tok env (Str op) stack = Inl (ArityError op)"
      by (intro eval_tok_arity) auto
    with assms show "eval_expr env (pre @ Str op # rest) = Inl (ArityError op)"
      by (rule eval_expr_abort)
  qed
  moreover have "\<forall>st a b. stack = st @ [a, b] \<longrightarrow>
        eval_expr_loop env (pre @ [Str ''+'']) [] = Inr (st @ [py_add a b]) \<and>
        eval_expr_loop env (pre @ [Str ''-'']) [] = Inr (st @ [py_sub a b]) \<and>
        eval_expr_loop env (pre @ [Str ''*'']) [] = Inr (st @ [py_mul a b]) \<and>
        eval_expr_loop env (pre @ [Str ''/'']) [] =
          (if py_is_zero b then Inl ZeroDivisionError else Inr (st @ [ieee_div a b]))"
    using assms
    by (simp add: eval_expr_loop_snoc eval_tok_plus eval_tok_minus eval_tok_mul eval_tok_div)
  moreover have "eval_expr env pre =
      (case stack of [v] \<Rightarrow> Inr v | _ \<Rightarrow> Inl MalformedExpressionError)"
    using assms by (rule eval_expr_final)
  moreover have "translate [(''x'', T_expr [T_expr_number ''10'', T_expr_number ''2'',
      T_expr_number ''3'', T_expr_minus, T_expr_minus])] = Inr [(''x'', RNum (Fin False 11 0))]"
    by code_simp
  moreover have "translate
       [(''s'', T_expr [T_expr_number ''2'', T_expr_number ''3'', T_expr_plus]),
        (''d'', T_expr [T_expr_number ''2'', T_expr_number ''3'', T_expr_minus]),
        (''p'', T_expr [T_expr_number ''2'', T_expr_number ''3'', T_expr_mul]),
        (''q'', T_expr [T_expr_number ''6'', T_expr_number ''3'', T_expr_div]),
        (''r'', T_expr [T_expr_number ''1'', T_expr_number ''4'', T_expr_div]),
        (''t'', T_expr [T_expr_number ''0.1'', T_expr_number ''0.2'', T_expr_plus]),
        (''u'', T_expr [T_expr_number ''1'', T_expr_number ''3'', T_expr_div]),
        (''v'', T_expr [T_expr_number ''0.1'', T_expr_number ''3'', T_expr_mul])]
       = Inr [(''s'', RNum (Fin False 5 0)), (''d'', RNum (Fin True 1 0)),
              (''p'', RNum (Fin False 3 1)), (''q'', RNum (Fin False 1 1)),
              (''r'', RNum (Fin False 1 (- 2))),
              (''t'', RNum (Fin False 1351079888211149 (- 52))),
              (''u'', RNum (Fin False 6004799503160661 (- 54))),
              (''v'', RNum (Fin False 1351079888211149 (- 52)))]"
    by code_simp
  ultimately show ?thesis by blast
qed

text \<open>
  The theorem at the tokens \<open>10 2 3 -\<close> followed by \<open>-\<close>: the stack \<open>[10.0, -1.0]\<close>
  becomes \<open>[11.0]\<close>; at the tokens \<open>2 3\<close> followed by \<open>*\<close>, which gives \<open>[6.0]\<close>; at the
  tokens \<open>1 4\<close> followed by \<open>/\<close>, which gives \<open>[0.25]\<close>; at the tokens \<open>6 -0.0\<close> followed by
  \<open>/\<close>, which fails; and at the token \<open>10\<close> followed by \<open>* 2\<close>, which fails.
\<close>

theorem C3_stack_machine_witness:
  "eval_expr_loop [] [Num (Fin False 5 1), Num (Fin False 1 1), Num (Fin False 3 0), Str ''-''] []
     = Inr [Fin False 5 1, Fin True 1 0] \<and>
   eval_expr_loop [] ([Num (Fin False 5 1), Num (Fin False 1 1), Num (Fin False 3 0), Str ''-'']
       @ [Str ''-'']) []
     = Inr [Fin False 11 0] \<and>
   eval_expr_loop [] [Num (Fin False 1 1), Num (Fin False 3 0)] []
     = Inr [Fin False 1 1, Fin False 3 0] \<and>
   eval_expr_loop [] ([Num (Fin False 1 1), Num (Fin False 3 0)] @ [Str ''*'']) []
     = Inr [Fin False 3 1] \<and>
   eval_expr_loop [] [Num (Fin False 1 0), Num (Fin False 1 2)] []
     = Inr [Fin False 1 0, Fin False 1 2] \<and>
   eval_expr_loop [] ([Num (Fin False 1 0), Num (Fin False 1 2)] @ [Str ''/'']) []
     = Inr [Fin False 1 (- 2)] \<and>
   eval_expr_loop [] [Num (Fin False 3 1), Num (Fin True 0 0)] []
     = Inr [Fin False 3 1, Fin True 0 0] \<and>
   eval_expr_loop [] ([Num (Fin False 3 1), Num (Fin True 0 0)] @ [Str ''/'']) []
     = Inl ZeroDivisionError \<and>
   eval_expr_loop [] [Num (Fin False 5 1)] [] = Inr [Fin False 5 1] \<and>
   ''*'' \<in> {''+'', ''-'', ''*'', ''/''} \<and> length [Fin False 5 1] < 2 \<and>
   eval_expr [] ([Num (Fin False 5 1)] @ Str ''*'' # [Num (Fin False 1 1)]) = Inl (ArityError ''*'')"
proof -
  have h: "eval_expr_loop [] [Num (Fin False 5 1), Num (Fin False 1 1), Num (Fin False 3 0),
      Str ''-''] [] = Inr [Fin False 5 1, Fin True 1 0]"
    by code_simp
  have v: "py_sub (Fin False 5 1) (Fin True 1 0) = Fin False 11 0"
    by code_simp
  from C3_stack_machine [OF h, of "[]" "Fin False 0 0" "[]"]
  have "\<forall>st a b. [Fin False 5 1, Fin True 1 0] = st @ [a, b] \<longrightarrow>
      eval_expr_loop [] ([Num (Fin False 5 1), Num (Fin False 1 1), Num (Fin False 3 0),
        Str ''-''] @ [Str ''-'']) [] = Inr (st @ [py_sub a b])"
    by blast
  then have s: "eval_expr_loop [] ([Num (Fin False 5 1), Num (Fin False 1 1), Num (Fin False 3 0),
        Str ''-''] @ [Str ''-'']) [] = Inr [Fin False 11 0]"
    using v by simp
  have hm: "eval_expr_loop [] [Num (Fin False 1 1), Num (Fin False 3 0)] []
      = Inr [Fin False 1 1, Fin False 3 0]"
    by (simp add: eval_tok_def)
  have vm: "py_mul (Fin False 1 1) (Fin False 3 0) = Fin False 3 1"
    by code_simp
  from C3_stack_machine [OF hm, of "[]" "Fin False 0 0" "[]"]
  have "\<forall>st a b. [Fin False 1 1, Fin False 3 0] = st @ [a, b] \<longrightarrow>
      eval_expr_loop [] ([Num (Fin False 1 1), Num (Fin False 3 0)] @ [Str ''*'']) []
        = Inr (st @ [py_mul a b])"
    by blast
  then have sm: "eval_expr_loop [] ([Num (Fin False 1 1), Num (Fin False 3 0)] @ [Str ''*'']) []
      = Inr [Fin False 3 1]"
    using vm by simp
  have hd: "eval_expr_loop [] [Num (Fin False 1 0), Num (Fin False 1 2)] []
      = Inr [Fin False 1 0, Fin False 1 2]"
    by (simp add: eval_tok_def)
  have zd: "\<not> py_is_zero (Fin False 1 2)"
    by simp
  have vd: "ieee_div (Fin False 1 0) (Fin False 1 2) = Fin False 1 (- 2)"
    by code_simp
  from C3_stack_machine [OF hd, of "[]" "Fin False 0 0" "[]"]
  have "\<forall>st a b. [Fin False 1 0, Fin False 1 2] = st @ [a, b] \<longrightarrow>
      eval_expr_loop [] ([Num (Fin False 1 0), Num (Fin False 1 2)] @ [Str ''/'']) []
        = (if py_is_zero b then Inl ZeroDivisionError else Inr (st @ [ieee_div a b]))"
    by blast
  then have sd: "eval_expr_loop [] ([Num (Fin False 1 0), Num (Fin False 1 2)] @ [Str ''/'']) []
      = Inr [Fin False 1 (- 2)]"
    using zd vd by simp
  have hz: "eval_expr_loop [] [Num (Fin False 3 1), Num (Fin True 0 0)] []
      = Inr [Fin False 3 1, Fin True 0 0]"
    by (simp add: eval_tok_def)
  from C3_stack_machine [OF hz, of "[]" "Fin False 0 0" "[]"]
  have "\<forall>st a b. [Fin False 3 1, Fin True 0 0] = st @ [a, b] \<longrightarrow>
      eval_expr_loop [] ([Num (Fin False 3 1), Num (Fin True 0 0)] @ [Str ''/'']) []
        = (if py_is_zero b then Inl ZeroDivisionError else Inr (st @ [ieee_div a b]))"
    by blast
  then have sz: "eval_expr_loop [] ([Num (Fin False 3 1), Num (Fin True 0 0)] @ [Str ''/'']) []
      = Inl ZeroDivisionError"
    by simp
  have h': "eval_expr_loop [] [Num (Fin False 5 1)] [] = Inr [Fin False 5 1]"
    by (simp add: eval_tok_def)
  have o: "''*'' \<in> {''+'', ''-'', ''*'', ''/''}" and l: "length [Fin False 5 1] < 2"
    by simp_all
  from C3_stack_machine [OF h', of "[]" "Fin False 0 0" "[Num (Fin False 1 1)]"] o l
  have "eval_expr [] ([Num (Fin False 5 1)] @ Str ''*'' # [Num (Fin False 1 1)])
      = Inl (ArityError ''*'')"
    by blast
  with h s hm sm hd sd hz sz h' o l show ?thesis by blast
qed

section \<open>Duplicate keys\<close>

text \<open>
  C4: for a well-formed parse tree, AST construction fails with \<open>DuplicateKeyError\<close>
  exactly when a key reappears within a single dictionary literal of the tree; the names
  of the top-level constants are not compared, so that the AST keeps every declaration,
  and a declaration of a name that is already bound is evaluated like any other: its
  value replaces the earlier binding and the result gets no new entry. The source
  \<open>d: begin k := 1; k := 2; end;\<close> fails with \<open>DuplicateKeyError\<close>, the source
  \<open>a: 1; a: 2;\<close> gives \<open>a = 2.0\<close>.
\<close>

theorem C4_duplicate_keys:
  assumes "entries_ok tree"
  shows
    "((\<exists>key. transform tree = Inl (DuplicateKeyError key)) \<longleftrightarrow> repeats_key_entries tree) \<and>
     (\<not> repeats_key_entries tree \<longrightarrow>
        (\<exists>ast. transform tree = Inr ast \<and> map fst ast = map fst tree)) \<and>
     (\<forall>ast env v x. eval_config ast = Inr env \<and> eval_value env v = Inr x \<longrightarrow>
        eval_config (ast @ [(name, v)]) = Inr (dict_set name x env) \<and>
        map_of (dict_set name x env) name = Some x \<and>
        (name \<in> fst ` set ast \<longrightarrow> length (dict_set name x env) = length env)) \<and>
     translate [(''d'', T_dictionary [(''k'', T_number ''1''), (''k'', T_number ''2'')])]
       = Inl (DuplicateKeyError ''k'') \<and>
     translate [(''a'', T_number ''1''), (''a'', T_number ''2'')]
       = Inr [(''a'', RNum (Fin False 1 1))]"
proof -
  note tr = transform_value_entries(2) [OF assms, folded transform_eq_entries]
  have "(\<exists>key. transform tree = Inl (DuplicateKeyError key)) \<longleftrightarrow> repeats_key_entries tree"
    using tr by (cases "repeats_key_entries tree") auto
  moreover have "\<not> repeats_key_entries tree \<longrightarrow>
      (\<exists>ast. transform tree = Inr ast \<and> map fst ast = map fst tree)"
    using tr by blast
  moreover have "\<forall>ast env v x. eval_config ast = Inr env \<and> eval_value env v = Inr x \<longrightarrow>
        eval_config (ast @ [(name, v)]) = Inr (dict_set name x env) \<and>
        map_of (dict_set name x env) name = Some x \<and>
        (name \<in> fst ` set ast \<longrightarrow> length (dict_set name x env) = length env)"
  proof (intro allI impI, elim conjE)
    fix ast env v x
    assume e: "eval_config ast = Inr env" and v: "eval_value env v = Inr x"
    have "eval_config (ast @ [(name, v)]) = Inr (dict_set name x env)"
      using e v by (simp add: eval_config_snoc)
    moreover have "map_of (dict_set name x env) name = Some x"
      by (simp add: update_conv')
    moreover have "name \<in> fst ` set ast \<longrightarrow> length (dict_set name x env) = length env"
    proof
      assume "name \<in> fst ` set ast"
      with eval_config_keys [OF e] have "dict_has env name" by simp
      then show "length (dict_set name x env) = length env" by (rule dict_set_length)
    qed
    ultimately show "eval_config (ast @ [(name, v)]) = Inr (dict_set name x env) \<and>
        map_of (dict_set name x env) name = Some x \<and>
        (name \<in> fst ` set ast \<longrightarrow> length (dict_set name x env) = length env)"
      by blast
  qed
  moreover have "translate [(''d'', T_dictionary [(''k'', T_number ''1''), (''k'', T_number ''2'')])]
       = Inl (DuplicateKeyError ''k'')"
    by code_simp
  moreover have "translate [(''a'', T_number ''1''), (''a'', T_number ''2'')]
       = Inr [(''a'', RNum (Fin False 1 1))]"
    by code_simp
  ultimately show ?thesis by blast
qed

text \<open>
  The theorem at the parse trees of \<open>d: begin k := 1; k := 2; end;\<close> and of
  \<open>a: 1; a: 2;\<close>, and at the AST of \<open>a: 1;\<close> followed by the declaration \<open>a: 2;\<close>.
\<close>

theorem C4_duplicate_keys_witness:
  "entries_ok [(''d'', T_dictionary [(''k'', T_number ''1''), (''k'', T_number ''2'')])] \<and>
   repeats_key_entries [(''d'', T_dictionary [(''k'', T_number ''1''), (''k'', T_number ''2'')])] \<and>
   (\<exists>key. transform [(''d'', T_dictionary [(''k'', T_number ''1''), (''k'', T_number ''2'')])]
      = Inl (DuplicateKeyError key)) \<and>
   entries_ok [(''a'', T_number ''1''), (''a'', T_number ''2'')] \<and>
   \<not> repeats_key_entries [(''a'', T_number ''1''), (''a'', T_number ''2'')] \<and>
   (\<exists>ast. transform [(''a'', T_number ''1''), (''a'', T_number ''2'')] = Inr ast \<and>
      map fst ast = map fst [(''a'', T_number ''1''), (''a'', T_number ''2'')]) \<and>
   eval_config [(''a'', Number (Fin False 1 0))] = Inr [(''a'', RNum (Fin False 1 0))] \<and>
   eval_value [(''a'', RNum (Fin False 1 0))] (Number (Fin False 1 1)) = Inr (RNum (Fin False 1 1)) \<and>
   ''a'' \<in> fst ` set [(''a'', Number (Fin False 1 0))] \<and>
   eval_config ([(''a'', Number (Fin False 1 0))] @ [(''a'', Number (Fin False 1 1))])
     = Inr (dict_set ''a'' (RNum (Fin False 1 1)) [(''a'', RNum (Fin False 1 0))]) \<and>
   dict_set ''a'' (RNum (Fin False 1 1)) [(''a'', RNum (Fin False 1 0))]
     = [(''a'', RNum (Fin False 1 1))] \<and>
   length (dict_set ''a'' (RNum (Fin False 1 1)) [(''a'', RNum (Fin False 1 0))])
     = length [(''a'', RNum (Fin False 1 0))]"
proof -
  have h1: "entries_ok [(''d'', T_dictionary [(''k'', T_number ''1''), (''k'', T_number ''2'')])]"
    by code_simp
  have r1: "repeats_key_entries
      [(''d'', T_dictionary [(''k'', T_number ''1''), (''k'', T_number ''2'')])]"
    by code_simp
  have h2: "entries_ok [(''a'', T_number ''1''), (''a'', T_number ''2'')]"
    by code_simp
  have r2: "\<not> repeats_key_entries [(''a'', T_number ''1''), (''a'', T_number ''2'')]"
    by code_simp
  have e: "eval_config [(''a'', Number (Fin False 1 0))] = Inr [(''a'', RNum (Fin False 1 0))]"
    by code_simp
  have v: "eval_value [(''a'', RNum (Fin False 1 0))] (Number (Fin False 1 1))
      = Inr (RNum (Fin False 1 1))"
    by simp
  have m: "''a'' \<in> fst ` set [(''a'', Number (Fin False 1 0))]"
    by simp
  have u: "dict_set ''a'' (RNum (Fin False 1 1)) [(''a'', RNum (Fin False 1 0))]
      = [(''a'', RNum (Fin False 1 1))]"
    by simp
  from C4_duplicate_keys [OF h1] r1
  have "\<exists>key. transform [(''d'', T_dictionary [(''k'', T_number ''1''), (''k'', T_number ''2'')])]
      = Inl (DuplicateKeyError key)"
    by blast
  moreover from C4_duplicate_keys [OF h2] r2
  have "\<exists>ast. transform [(''a'', T_number ''1''), (''a'', T_number ''2'')] = Inr ast \<and>
      map fst ast = map fst [(''a'', T_number ''1''), (''a'', T_number ''2'')]"
    by blast
  moreover from C4_duplicate_keys [OF h2, of "''a''"] e v m
  have "eval_config ([(''a'', Number (Fin False 1 0))] @ [(''a'', Number (Fin False 1 1))])
       = Inr (dict_set ''a'' (RNum (Fin False 1 1)) [(''a'', RNum (Fin False 1 0))]) \<and>
     length (dict_set ''a'' (RNum (Fin False 1 1)) [(''a'', RNum (Fin False 1 0))])
       = length [(''a'', RNum (Fin False 1 0))]"
    by blast
  ultimately show ?thesis using h1 r1 h2 r2 e v m u by blast
qed

section \<open>References\<close>

text \<open>
  C5: for every reference token \<open>name\<close> (a name that is neither an operator sign nor
  \<open>min\<close>) reached by the evaluation of an expression: if \<open>name\<close> is absent from the
  environment the evaluation fails with \<open>UnknownConstantError\<close>; if it is bound to a
  dict the evaluation fails with \<open>NonNumericReferenceError\<close>; otherwise the bound
  number is pushed onto the stack. The source \<open>y: $ z 1 + $;\<close> fails with
  \<open>UnknownConstantError\<close>, and \<open>d: begin a := 1; end; e: $ d 1 + $;\<close> fails with
  \<open>NonNumericReferenceError\<close>.
\<close>

theorem C5_reference:
  assumes "eval_expr_loop env pre [] = Inr stack"
    and "name \<notin> {''+'', ''-'', ''*'', ''/'', ''min''}"
  shows
    "(map_of env name = None \<longrightarrow>
        eval_expr env (pre @ Str name # rest) = Inl (UnknownConstantError name)) \<and>
     (\<forall>d. map_of env name = Some (RDict d) \<longrightarrow>
        eval_expr env (pre @ Str name # rest) = Inl (NonNumericReferenceError name)) \<and>
     (\<forall>x. map_of env name = Some (RNum x) \<longrightarrow>
        eval_expr_loop env (pre @ [Str name]) [] = Inr (stack @ [x])) \<and>
     translate [(''y'', T_expr [T_expr_name ''z'', T_expr_number ''1'', T_expr_plus])]
       = Inl (UnknownConstantError ''z'') \<and>
     translate [(''d'', T_dictionary [(''a'', T_number ''1'')]),
                (''e'', T_expr [T_expr_name ''d'', T_expr_number ''1'', T_expr_plus])]
       = Inl (NonNumericReferenceError ''d'')"
proof -
  note tok = eval_tok_name [OF assms(2), of env stack]
  have "map_of env name = None \<longrightarrow>
      eval_expr env (pre @ Str name # rest) = Inl (UnknownConstantError name)"
  proof
    assume "map_of env name = None"
    then have "eval_tok env (Str name) stack = Inl (UnknownConstantError name)"
      by (simp add: tok)
    with assms(1) show "eval_expr env (pre @ Str name # rest) = Inl (UnknownConstantError name)"
      by (rule eval_expr_abort)
  qed
  moreover have "\<forall>d. map_of env name = Some (RDict d) \<longrightarrow>
      eval_expr env (pre @ Str name # rest) = Inl (NonNumericReferenceError name)"
  proof (intro allI impI)
    fix d assume "map_of env name = Some (RDict d)"
    then have "eval_tok env (Str name) stack = Inl (NonNumericReferenceError name)"
      by (simp add: tok)
    with assms(1)
    show "eval_expr env (pre @ Str name # rest) = Inl (NonNumericReferenceError name)"
      by (rule eval_expr_abort)
  qed
  moreover have "\<forall>x. map_of env name = Some (RNum x) \<longrightarrow>
      eval_expr_loop env (pre @ [Str name]) [] = Inr (stack @ [x])"
    using assms(1) by (simp add: eval_expr_loop_snoc tok)
  moreover have "translate [(''y'', T_expr [T_expr_name ''z'', T_expr_number ''1'', T_expr_plus])]
       = Inl (UnknownConstantError ''z'')"
    by code_simp
  moreover have "translate [(''d'', T_dictionary [(''a'', T_number ''1'')]),
                (''e'', T_expr [T_expr_name ''d'', T_expr_number ''1'', T_expr_plus])]
       = Inl (NonNumericReferenceError ''d'')"
    by code_simp
  ultimately show ?thesis by blast
qed

text \<open>
  The theorem after the token \<open>3\<close>, in an environment that binds \<open>a\<close> to \<open>2.0\<close> and \<open>d\<close> to
  an empty dict: the reference \<open>a\<close> is pushed, the references \<open>d\<close> and \<open>z\<close> fail.
\<close>

theorem C5_reference_witness:
  "eval_expr_loop [(''a'', RNum (Fin False 1 1)), (''d'', RDict [])] [Num (Fin False 3 0)] []
     = Inr [Fin False 3 0] \<and>
   ''a'' \<notin> {''+'', ''-'', ''*'', ''/'', ''min''} \<and>
   map_of [(''a'', RNum (Fin False 1 1)), (''d'', RDict [])] ''a'' = Some (RNum (Fin False 1 1)) \<and>
   eval_expr_loop [(''a'', RNum (Fin False 1 1)), (''d'', RDict [])]
       ([Num (Fin False 3 0)] @ [Str ''a'']) []
     = Inr ([Fin False 3 0] @ [Fin False 1 1]) \<and>
   ''d'' \<notin> {''+'', ''-'', ''*'', ''/'', ''min''} \<and>
   map_of [(''a'', RNum (Fin False 1 1)), (''d'', RDict [])] ''d'' = Some (RDict []) \<and>
   eval_expr [(''a'', RNum (Fin False 1 1)), (''d'', RDict [])]
       ([Num (Fin False 3 0)] @ Str ''d'' # [Str ''+''])
     = Inl (NonNumericReferenceError ''d'') \<and>
   ''z'' \<notin> {''+'', ''-'', ''*'', ''/'', ''min''} \<and>
   map_of [(''a'', RNum (Fin False 1 1)), (''d'', RDict [])] ''z'' = None \<and>
   eval_expr [(''a'', RNum (Fin False 1 1)), (''d'', RDict [])]
       ([Num (Fin False 3 0)] @ Str ''z'' # [Str ''+''])
     = Inl (UnknownConstantError ''z'')"
proof -
  let ?env = "[(''a'', RNum (Fin False 1 1)), (''d'', RDict [])]"
  have h: "eval_expr_loop ?env [Num (Fin False 3 0)] [] = Inr [Fin False 3 0]"
    by (simp add: eval_tok_def)
  have a: "''a'' \<notin> {''+'', ''-'', ''*'', ''/'', ''min''}"
    and d: "''d'' \<notin> {''+'', ''-'', ''*'', ''/'', ''min''}"
    and z: "''z'' \<notin> {''+'', ''-'', ''*'', ''/'', ''min''}"
    by simp_all
  have ma: "map_of ?env ''a'' = Some (RNum (Fin False 1 1))"
    and md: "map_of ?env ''d'' = Some (RDict [])"
    and mz: "map_of ?env ''z'' = None"
    by simp_all
  from C5_reference [OF h a, of "[]"] ma
  have "eval_expr_loop ?env ([Num (Fin False 3 0)] @ [Str ''a'']) []
     = Inr ([Fin False 3 0] @ [Fin False 1 1])"
    by blast
  moreover from C5_reference [OF h d, of "[Str ''+'']"] md
  have "eval_expr ?env ([Num (Fin False 3 0)] @ Str ''d'' # [Str ''+''])
     = Inl (NonNumericReferenceError ''d'')"
    by blast
  moreover from C5_reference [OF h z, of "[Str ''+'']"] mz
  have "eval_expr ?env ([Num (Fin False 3 0)] @ Str ''z'' # [Str ''+''])
     = Inl (UnknownConstantError ''z'')"
    by blast
  ultimately show ?thesis using h a d z ma md mz by blast
qed

section \<open>The function min\<close>

text \<open>
  C6: the identifier \<open>min\<close> is an ordinary \<open>NAME\<close> for the parser and the AST
  builder, which give the item \<open>Str ''min''\<close>; the evaluator treats it as a binary
  function: it pops \<open>b\<close>, then \<open>a\<close>, and pushes \<open>min(a, b)\<close>, which is \<open>b\<close> if \<open>b < a\<close> and
  \<open>a\<close> otherwise, and fails with \<open>ArityError\<close> on a stack of fewer than two operands. The
  source \<open>x: $ 3 4 min $;\<close> gives \<open>x = 3.0\<close>. The last equation gives the values of \<open>min\<close>
  in the source
  \<open>a: $ 4 3 min $; b: $ 3 4 min $; c: $ 0 1 - 0 2 - min $; d: $ 2.5 0 1 - min $;
  e: $ 0 0 0 1 - * min $; f: $ 0 0 1 - * 0 min $;\<close>:
  \<open>3.0\<close>, \<open>3.0\<close>, \<open>-2.0\<close> (of \<open>-1.0\<close> and \<open>-2.0\<close>), \<open>-1.0\<close> (of \<open>2.5\<close> and \<open>-1.0\<close>), \<open>0.0\<close> (of
  \<open>0.0\<close> and \<open>-0.0\<close>, which are equal: the first is kept) and \<open>-0.0\<close> (of \<open>-0.0\<close> and
  \<open>0.0\<close>).
\<close>

theorem C6_min_function:
  assumes "eval_expr_loop env pre [] = Inr stack"
  shows
    "(length stack < 2 \<longrightarrow> eval_expr env (pre @ Str ''min'' # rest) = Inl (ArityError ''min'')) \<and>
     (\<forall>st a b. stack = st @ [a, b] \<longrightarrow>
        eval_expr_loop env (pre @ [Str ''min'']) [] = Inr (st @ [py_min a b]) \<and>
        py_min a b = (if py_lt b a then b else a)) \<and>
     transform_item (T_expr_name ''min'') = Inr (Str ''min'') \<and>
     translate [(''x'', T_expr [T_expr_number ''3'', T_expr_number ''4'', T_expr_name ''min''])]
       = Inr [(''x'', RNum (Fin False 3 0))] \<and>
     translate
       [(''a'', T_expr [T_expr_number ''4'', T_expr_number ''3'', T_expr_name ''min'']),
        (''b'', T_expr [T_expr_number ''3'', T_expr_number ''4'', T_expr_name ''min'']),
        (''c'', T_expr [T_expr_number ''0'', T_expr_number ''1'', T_expr_minus,
                       T_expr_number ''0'', T_expr_number ''2'', T_expr_minus,
                       T_expr_name ''min'']),
        (''d'', T_expr [T_expr_number ''2.5'', T_expr_number ''0'', T_expr_number ''1'',
                       T_expr_minus, T_expr_name ''min'']),
        (''e'', T_expr [T_expr_number ''0'', T_expr_number ''0'', T_expr_number ''0'',
                       T_expr_number ''1'', T_expr_minus, T_expr_mul, T_expr_name ''min'']),
        (''f'', T_expr [T_expr_number ''0'', T_expr_number ''0'', T_expr_number ''1'',
                       T_expr_minus, T_expr_mul, T_expr_number ''0'', T_expr_name ''min''])]
       = Inr [(''a'', RNum (Fin False 3 0)), (''b'', RNum (Fin False 3 0)),
              (''c'', RNum (Fin True 1 1)), (''d'', RNum (Fin True 1 0)),
              (''e'', RNum (Fin False 0 0)), (''f'', RNum (Fin True 0 0))]"
proof -
  have "length stack < 2 \<longrightarrow>
      eval_expr env (pre @ Str ''min'' # rest) = Inl (ArityError ''min'')"
  proof
    assume "length stack < 2"
    then have "eval_tok env (Str ''min'') stack = Inl (ArityError ''min'')"
      by (intro eval_tok_arity) auto
    with assms show "eval_expr env (pre @ Str ''min'' # rest) = Inl (ArityError ''min'')"
      by (rule eval_expr_abort)
  qed
  moreover have "\<forall>st a b. stack = st @ [a, b] \<longrightarrow>
      eval_expr_loop env (pre @ [Str ''min'']) [] = Inr (st @ [py_min a b]) \<and>
      py_min a b = (if py_lt b a then b else a)"
    using assms by (simp add: eval_expr_loop_snoc eval_tok_min py_min_def)
  moreover have "transform_item (T_expr_name ''min'') = Inr (Str ''min'')"
    by (simp add: expr_name_def)
  moreover have "translate [(''x'', T_expr [T_expr_number ''3'', T_expr_number ''4'',
      T_expr_name ''min''])] = Inr [(''x'', RNum (Fin False 3 0))]"
    by code_simp
  moreover have "translate
       [(''a'', T_expr [T_expr_number ''4'', T_expr_number ''3'', T_expr_name ''min'']),
        (''b'', T_expr [T_expr_number ''3'', T_expr_number ''4'', T_expr_name ''min'']),
        (''c'', T_expr [T_expr_number ''0'', T_expr_number ''1'', T_expr_minus,
                       T_expr_number ''0'', T_expr_number ''2'', T_expr_minus,
                       T_expr_name ''min'']),
        (''d'', T_expr [T_expr_number ''2.5'', T_expr_number ''0'', T_expr_number ''1'',
                       T_expr_minus, T_expr_name ''min'']),
        (''e'', T_expr [T_expr_number ''0'', T_expr_number ''0'', T_expr_number ''0'',
                       T_expr_number ''1'', T_expr_minus, T_expr_mul, T_expr_name ''min'']),
        (''f'', T_expr [T_expr_number ''0'', T_expr_number ''0'', T_expr_number ''1'',
                       T_expr_minus, T_expr_mul, T_expr_number ''0'', T_expr_name ''min''])]
       = Inr [(''a'', RNum (Fin False 3 0)), (''b'', RNum (Fin False 3 0)),
              (''c'', RNum (Fin True 1 1)), (''d'', RNum (Fin True 1 0)),
              (''e'', RNum (Fin False 0 0)), (''f'', RNum (Fin True 0 0))]"
    by code_simp
  ultimately show ?thesis by blast
qed

text \<open>
  The theorem at the tokens \<open>3 4\<close> and at the tokens \<open>4 3\<close>, each followed by \<open>min\<close>, which
  give \<open>[3.0]\<close>; and at the token \<open>3\<close> followed by \<open>min 4\<close>, which fails.
\<close>

theorem C6_min_function_witness:
  "eval_expr_loop [] [Num (Fin False 3 0), Num (Fin False 1 2)] []
     = Inr [Fin False 3 0, Fin False 1 2] \<and>
   eval_expr_loop [] ([Num (Fin False 3 0), Num (Fin False 1 2)] @ [Str ''min'']) []
     = Inr [Fin False 3 0] \<and>
   eval_expr_loop [] [Num (Fin False 1 2), Num (Fin False 3 0)] []
     = Inr [Fin False 1 2, Fin False 3 0] \<and>
   py_lt (Fin False 3 0) (Fin False 1 2) \<and>
   eval_expr_loop [] ([Num (Fin False 1 2), Num (Fin False 3 0)] @ [Str ''min'']) []
     = Inr [Fin False 3 0] \<and>
   eval_expr_loop [] [Num (Fin False 3 0)] [] = Inr [Fin False 3 0] \<and>
   length [Fin False 3 0] < 2 \<and>
   eval_expr [] ([Num (Fin False 3 0)] @ Str ''min'' # [Num (Fin False 1 2)])
     = Inl (ArityError ''min'')"
proof -
  have h: "eval_expr_loop [] [Num (Fin False 3 0), Num (Fin False 1 2)] []
     = Inr [Fin False 3 0, Fin False 1 2]"
    by (simp add: eval_tok_def)
  have n: "\<not> py_lt (Fin False 1 2) (Fin False 3 0)"
    by code_simp
  from C6_min_function [OF h, of "[]"]
  have "\<forall>st a b. [Fin False 3 0, Fin False 1 2] = st @ [a, b] \<longrightarrow>
      eval_expr_loop [] ([Num (Fin False 3 0), Num (Fin False 1 2)] @ [Str ''min'']) []
        = Inr (st @ [py_min a b]) \<and>
      py_min a b = (if py_lt b a then b else a)"
    by blast
  then have s: "eval_expr_loop [] ([Num (Fin False 3 0), Num (Fin False 1 2)] @ [Str ''min'']) []
     = Inr [Fin False 3 0]"
    using n by simp
  have g: "eval_expr_loop [] [Num (Fin False 1 2), Num (Fin False 3 0)] []
     = Inr [Fin False 1 2, Fin False 3 0]"
    by (simp add: eval_tok_def)
  have y: "py_lt (Fin False 3 0) (Fin False 1 2)"
    by code_simp
  from C6_min_function [OF g, of "[]"]
  have "\<forall>st a b. [Fin False 1 2, Fin False 3 0] = st @ [a, b] \<longrightarrow>
      eval_expr_loop [] ([Num (Fin False 1 2), Num (Fin False 3 0)] @ [Str ''min'']) []
        = Inr (st @ [py_min a b]) \<and>
      py_min a b = (if py_lt b a then b else a)"
    by blast
  then have t: "eval_expr_loop [] ([Num (Fin False 1 2), Num (Fin False 3 0)] @ [Str ''min'']) []
     = Inr [Fin False 3 0]"
    using y by simp
  have h': "eval_expr_loop [] [Num (Fin False 3 0)] [] = Inr [Fin False 3 0]"
    by (simp add: eval_tok_def)
  have l: "length [Fin False 3 0] < 2" by simp
  from C6_min_function [OF h', of "[Num (Fin False 1 2)]"] l
  have "eval_expr [] ([Num (Fin False 3 0)] @ Str ''min'' # [Num (Fin False 1 2)])
     = Inl (ArityError ''min'')"
    by blast
  with h s g y t h' l show ?thesis by blast
qed

section \<open>Source order\<close>



section \<open>Dictionaries and the environment\<close>



section \<open>The XML tree\<close>

text \<open>
  C9: the XML emitter maps a resolved configuration to a tree rooted at a \<open>config\<close>
  element, whose children are the emitted entries in the order of the mapping: a number
  becomes a \<open>number\<close> element with the attribute \<open>name\<close> and the text of the float, a dict
  becomes a \<open>dict\<close> element with the attribute \<open>name\<close> and the emitted entries of the dict
  as children, in the order of the dict. The text of a float is \<open>str(value)\<close>, the
  function \<open>float_str\<close>. The last equation is the tree of the configuration \<open>b = 2.0\<close>,
  \<open>d = {k = 1.0, e = {}}\<close>, \<open>a = 3.0\<close>.
\<close>

theorem C9_xml_tree:
  "build_xml float_str data
     = Element ''config'' [] None (map (\<lambda>(name, v). emit float_str name v) data) \<and>
   emit float_str name (RNum x)
     = Element ''number'' [(''name'', name)] (Some (float_str x)) [] \<and>
   emit float_str name (RDict d)
     = Element ''dict'' [(''name'', name)] None (map (\<lambda>(k, v). emit float_str k v) d) \<and>
   build_xml float_str
       [(''b'', RNum (Fin False 1 1)),
        (''d'', RDict [(''k'', RNum (Fin False 1 0)), (''e'', RDict [])]),
        (''a'', RNum (Fin False 3 0))]
     = Element ''config'' [] None
         [Element ''number'' [(''name'', ''b'')] (Some (float_str (Fin False 1 1))) [],
          Element ''dict'' [(''name'', ''d'')] None
            [Element ''number'' [(''name'', ''k'')] (Some (float_str (Fin False 1 0))) [],
             Element ''dict'' [(''name'', ''e'')] None []],
          Element ''number'' [(''name'', ''a'')] (Some (float_str (Fin False 3 0))) []]"
  by (simp add: build_xml_def add_value_emit(2) emit_all_map SubElement_def)

section \<open>A constant named min\<close>

text \<open>
  C10: inside an expression the token \<open>min\<close> is always the binary function, also when
  a constant named \<open>min\<close> is in the environment: the value of an expression is the same
  in two environments that differ at most in the binding of \<open>min\<close>, the token \<open>min\<close> is
  evaluated as in the empty environment, and the expression \<open>$ min $\<close> fails with
  \<open>ArityError\<close> in every environment. The source \<open>min: 5; x: $ min $;\<close> fails with
  \<open>ArityError\<close>.
\<close>

theorem C10_min_shadows_constant:
  assumes "\<forall>k. k \<noteq> ''min'' \<longrightarrow> map_of env k = map_of env' k"
  shows
    "eval_expr env tokens = eval_expr env' tokens \<and>
     eval_tok env (Str ''min'') stack = eval_tok [] (Str ''min'') stack \<and>
     eval_expr env [Str ''min''] = Inl (ArityError ''min'') \<and>
     translate [(''min'', T_number ''5''), (''x'', T_expr [T_expr_name ''min''])]
       = Inl (ArityError ''min'')"
proof -
  have "eval_expr env tokens = eval_expr env' tokens"
    using assms by (simp add: eval_expr_def eval_expr_loop_env_cong [of env env'])
  moreover have "eval_tok env (Str ''min'') stack = eval_tok [] (Str ''min'') stack"
    by (simp add: eval_tok_def)
  moreover have "eval_expr env [Str ''min''] = Inl (ArityError ''min'')"
    by (simp add: eval_expr_def eval_tok_def)
  moreover have "translate [(''min'', T_number ''5''), (''x'', T_expr [T_expr_name ''min''])]
       = Inl (ArityError ''min'')"
    by code_simp
  ultimately show ?thesis by blast
qed

text \<open>
  The theorem at the environment \<open>min = 5.0\<close> and the empty environment, which agree on
  every name but \<open>min\<close>: the tokens \<open>3 4 min\<close> give \<open>3.0\<close> in both.
\<close>

theorem C10_min_shadows_constant_witness:
  "eval_expr [(''min'', RNum (Fin False 5 0))] [Num (Fin False 3 0), Num (Fin False 1 2), Str ''min'']
     = eval_expr [] [Num (Fin False 3 0), Num (Fin False 1 2), Str ''min''] \<and>
   eval_expr [] [Num (Fin False 3 0), Num (Fin False 1 2), Str ''min''] = Inr (Fin False 3 0) \<and>
   eval_expr [(''min'', RNum (Fin False 5 0))] [Str ''min''] = Inl (ArityError ''min'')"
proof -
  have h: "\<forall>k. k \<noteq> ''min'' \<longrightarrow> map_of [(''min'', RNum (Fin False 5 0))] k = map_of [] k"
    by simp
  have v: "eval_expr [] [Num (Fin False 3 0), Num (Fin False 1 2), Str ''min'']
      = Inr (Fin False 3 0)"
    by code_simp
  from C10_min_shadows_constant [OF h] v show ?thesis by blast
qed

end
